theory Spec2Isabelle
  imports Main
begin

section \<open>The variant-prediction notebook (examples/sup\_variant\_prediction.ipynb)\<close>

text \<open>
  The notebook is a sequence of code cells run in order on one kernel. A cell is
  modelled as a function from the kernel's variables (a record, a variable that is not
  bound yet being \<open>None\<close>) to its outcome: the variables after the cell when it
  completes (\<open>Inr\<close>), or the exception it raises together with the variables it leaves
  behind (\<open>Inl\<close>): what a cell has bound or printed before it raises stays in the kernel.
  Cells are named after their position in the notebook file (\<open>cell_13\<close> is the loading
  cell, \<open>cell_15\<close> the split, \<open>cell_18\<close> the projection, \<open>cell_23\<close> and \<open>cell_24\<close>
  declare the grids, \<open>cell_26\<close> is the grid search, \<open>cell_35\<close> the evaluation).

  The fields of the record are the names one cell binds and another reads, and the
  printed output. Names a cell binds and only that cell reads (\<open>header\<close>, \<open>fn\<close>,
  \<open>embs\<close>, \<open>train_size\<close>, \<open>pca\<close>, \<open>cls_name\<close>, \<open>grid\<close>, \<open>preds\<close>, ...) are not
  fields. The three names of the configuration cell 11 are constants.

  The numeric work is done by third-party libraries (torch, scikit-learn, scipy) and by
  \<open>esm.data.read_fasta\<close>, none of which is part of the notebook. What they compute is a
  parameter of the model (the record \<open>lib\<close>); what the notebook does with their results
  is modelled here. Floating-point values are an arbitrary type \<open>'v\<close>, a fitted
  estimator an arbitrary type \<open>'m\<close>.
\<close>

subsection \<open>Exceptions, values, the libraries\<close>

datatype error =
  SyntaxError | NameError | ValueError | FileNotFoundError | KeyError
  | RuntimeError | IndexError | OSError

type_synonym 'k outcome = "(error \<times> 'k) + 'k"

datatype estimator = KNeighborsRegressor | SVR | RandomForestRegressor

datatype pval = PInt int | PFloat int int | PStr string | PEst estimator

type_synonym candidate = "(string \<times> pval) list"

type_synonym param_grid = "(string \<times> pval list) list list"

datatype step = PCA nat | Passthrough

type_synonym pipeline = "(string \<times> step) list"

record ('v, 'm) lib =
  read_fasta :: "string \<Rightarrow> error + (string \<times> string) list"
  py_float :: "string \<Rightarrow> 'v option"
  torch_load :: "string \<Rightarrow> (string \<rightharpoonup> (nat \<rightharpoonup> 'v list)) option"
  permutation :: "nat \<Rightarrow> nat \<Rightarrow> nat list"
  isfinite :: "'v \<Rightarrow> bool"
  principal_axis :: "'v list list \<Rightarrow> nat \<Rightarrow> 'v list"
  centered :: "'v list list \<Rightarrow> 'v list \<Rightarrow> 'v list"
  dot :: "'v list \<Rightarrow> 'v list \<Rightarrow> 'v"
  cv_score :: "pipeline \<Rightarrow> candidate \<Rightarrow> 'v list list \<Rightarrow> 'v list \<Rightarrow> 'v"
  refit :: "pipeline \<Rightarrow> candidate \<Rightarrow> 'v list list \<Rightarrow> 'v list \<Rightarrow> 'm"
  predict :: "'m \<Rightarrow> 'v list list \<Rightarrow> 'v list"
  spearmanr :: "'v list \<Rightarrow> 'v list \<Rightarrow> 'v \<times> 'v"

text \<open>
  \<^item> \<open>read_fasta path\<close>: the (header, sequence) records \<open>esm.data.read_fasta\<close> yields,
    or the exception it raises;
  \<^item> \<open>py_float s\<close>: Python's \<open>float(s)\<close>, \<open>None\<close> when it raises \<open>ValueError\<close>;
  \<^item> \<open>torch_load fn\<close>: the dictionary \<open>torch.load(fn)\<close> returns, \<open>None\<close> when the
    file does not exist;
  \<^item> \<open>permutation seed n\<close>: NumPy's \<open>RandomState(seed).permutation(n)\<close>;
  \<^item> \<open>isfinite v\<close>: \<open>v\<close> is neither NaN nor infinite;
  \<^item> \<open>principal_axis X j\<close>, \<open>centered X row\<close>, \<open>dot\<close>: the \<open>j\<close>-th principal axis
    of a matrix, a row minus the column means, and the inner product;
  \<^item> \<open>cv_score pipe c X y\<close>: the mean cross-validated \<open>r2\<close> score of the pipeline
    with the parameters \<open>c\<close>; \<open>refit\<close>: that pipeline fitted on all of \<open>X\<close>;
  \<^item> \<open>predict\<close> and \<open>spearmanr\<close>: the estimator's predictions and
    \<open>scipy.stats.spearmanr\<close> (correlation and p-value).
\<close>

datatype ('v, 'm) printed =
  PrintNat nat | PrintShape nat nat | PrintClass estimator | PrintModel 'm
  | PrintBlank | PrintSpearman "'v \<times> 'v" | PrintRule

text \<open>
  A fitted \<open>GridSearchCV\<close> object, with its attributes \<open>cv_results_\<close> (the parameters
  and the mean validation score of every candidate), \<open>best_index_\<close> and
  \<open>best_estimator_\<close>, named here without the trailing underscore.
\<close>

record ('v, 'm) grid_search =
  cv_results :: "(candidate \<times> 'v) list"
  best_index :: nat
  best_estimator :: 'm

record ('v, 'm) kernel =
  ys :: "'v list option"
  Xs :: "'v list list option"
  Xs_train :: "'v list list option"
  Xs_test :: "'v list list option"
  ys_train :: "'v list option"
  ys_test :: "'v list option"
  num_pca_components :: "nat option"
  Xs_train_pca :: "'v list list option"
  knn_grid :: "param_grid option"
  svm_grid :: "param_grid option"
  rfr_grid :: "param_grid option"
  cls_list :: "estimator list option"
  param_grid_list :: "param_grid list option"
  pipe :: "pipeline option"
  result_list :: "(candidate \<times> 'v) list list option"
  grid_list :: "('v, 'm) grid_search list option"
  stdout :: "('v, 'm) printed list"

definition fresh_kernel :: "('v, 'm) kernel" where
  "fresh_kernel =
     \<lparr>ys = None, Xs = None, Xs_train = None, Xs_test = None, ys_train = None,
      ys_test = None, num_pca_components = None, Xs_train_pca = None,
      knn_grid = None, svm_grid = None, rfr_grid = None, cls_list = None,
      param_grid_list = None, pipe = None, result_list = None,
      grid_list = None, stdout = []\<rparr>"

definition var :: "'a option \<Rightarrow> error + 'a" where
  \<comment> \<open>Reading a variable: \<open>NameError\<close> when it is not bound.\<close>
  "var x = (case x of None \<Rightarrow> Inl NameError | Some v \<Rightarrow> Inr v)"

definition after :: "'k outcome \<Rightarrow> 'k" where
  \<comment> \<open>The kernel a cell leaves, whether it completed or raised.\<close>
  "after r = (case r of Inl (e, k) \<Rightarrow> k | Inr k \<Rightarrow> k)"

subsection \<open>Cell 11: configuration\<close>

definition FASTA_PATH :: string where
  "FASTA_PATH = ''./P62593.fasta''"

definition EMB_PATH :: string where
  "EMB_PATH = ''./P62593_reprs/''"

definition EMB_LAYER :: nat where
  "EMB_LAYER = 34"

subsection \<open>Cell 13: loading embeddings and target effects\<close>

fun split_on :: "char \<Rightarrow> string \<Rightarrow> string list" where
  \<comment> \<open>Python's \<open>s.split(sep)\<close> for a one-character separator: never empty.\<close>
  "split_on sep [] = [[]]"
| "split_on sep (c # cs) =
     (if c = sep then [] # split_on sep cs
      else (case split_on sep cs of
              w # ws \<Rightarrow> (c # w) # ws
            | [] \<Rightarrow> [[c]]))"

definition emb_file :: "string \<Rightarrow> string" where
  \<comment> \<open>\<open>f'{EMB_PATH}/{header[1:]}.pt'\<close>\<close>
  "emb_file header = EMB_PATH @ ''/'' @ drop 1 header @ ''.pt''"

definition mean_representation :: "('v, 'm) lib \<Rightarrow> string \<Rightarrow> error + 'v list" where
  \<comment> \<open>\<open>torch.load(fn)['mean_representations'][EMB_LAYER]\<close>\<close>
  "mean_representation L header =
     (case torch_load L (emb_file header) of
        None \<Rightarrow> Inl FileNotFoundError
      | Some embs \<Rightarrow>
          (case embs ''mean_representations'' of
             None \<Rightarrow> Inl KeyError
           | Some reps \<Rightarrow>
               (case reps EMB_LAYER of
                  None \<Rightarrow> Inl KeyError
                | Some t \<Rightarrow> Inr t)))"

fun load_loop ::
  "('v, 'm) lib \<Rightarrow> (string \<times> string) list \<Rightarrow> 'v list \<Rightarrow> 'v list list
     \<Rightarrow> (error \<times> 'v list \<times> 'v list list) + ('v list \<times> 'v list list)" where
  \<comment> \<open>The \<open>for header, _seq in ...\<close> loop; the accumulators are \<open>ys\<close> and \<open>Xs\<close>. When a
      call raises, the lists are as the appends made so far have left them: the label of
      the failing record is appended before its file is loaded.\<close>
  "load_loop L [] ys_acc Xs_acc = Inr (ys_acc, Xs_acc)"
| "load_loop L ((header, seq) # rest) ys_acc Xs_acc =
     (let scaled_effect = last (split_on CHR ''|'' header) in
      case py_float L scaled_effect of
        None \<Rightarrow> Inl (ValueError, ys_acc, Xs_acc)
      | Some y \<Rightarrow>
          (case mean_representation L header of
             Inl e \<Rightarrow> Inl (e, ys_acc @ [y], Xs_acc)
           | Inr t \<Rightarrow> load_loop L rest (ys_acc @ [y]) (Xs_acc @ [t])))"

definition torch_stack :: "'v list list \<Rightarrow> error + 'v list list" where
  \<comment> \<open>\<open>torch.stack(Xs, dim=0).numpy()\<close>: the tensors as the rows of one matrix;
      \<open>RuntimeError\<close> on an empty list and on tensors of different sizes.\<close>
  "torch_stack ts =
     (case ts of
        [] \<Rightarrow> Inl RuntimeError
      | t # rest \<Rightarrow>
          if list_all (\<lambda>u. length u = length t) rest then Inr ts else Inl RuntimeError)"

definition shape :: "'v list list \<Rightarrow> nat \<times> nat" where
  \<comment> \<open>\<open>X.shape\<close> of a two-dimensional array.\<close>
  "shape X = (length X, (case X of [] \<Rightarrow> 0 | r # _ \<Rightarrow> length r))"

definition cell_13 ::
  "('v, 'm) lib \<Rightarrow> ('v, 'm) kernel \<Rightarrow> ('v, 'm) kernel outcome" where
  \<comment> \<open>\<open>ys = []\<close> and \<open>Xs = []\<close> are bound before the file is opened; until it is
      stacked, \<open>Xs\<close> is the list of the tensors loaded so far.\<close>
  "cell_13 L k =
     (case read_fasta L FASTA_PATH of
        Inl e \<Rightarrow> Inl (e, k\<lparr>ys := Some [], Xs := Some []\<rparr>)
      | Inr records \<Rightarrow>
          (case load_loop L records [] [] of
             Inl (e, ys_part, Xs_part) \<Rightarrow>
               Inl (e, k\<lparr>ys := Some ys_part, Xs := Some Xs_part\<rparr>)
           | Inr (ys_list, Xs_list) \<Rightarrow>
               (case torch_stack Xs_list of
                  Inl e \<Rightarrow> Inl (e, k\<lparr>ys := Some ys_list, Xs := Some Xs_list\<rparr>)
                | Inr X \<Rightarrow>
                    Inr (k\<lparr>ys := Some ys_list, Xs := Some X,
                           stdout := stdout k @ [PrintNat (length ys_list),
                                                 PrintShape (fst (shape X)) (snd (shape X))]\<rparr>))))"

subsection \<open>Cell 15: the train/test split\<close>

definition train_size :: "nat \<times> nat" where
  \<comment> \<open>\<open>train_size = 0.8\<close>, as the fraction 4/5.\<close>
  "train_size = (4, 5)"

definition gather :: "'a list \<Rightarrow> nat list \<Rightarrow> error + 'a list" where
  \<comment> \<open>\<open>a[indices]\<close>: \<open>IndexError\<close> on an index out of range.\<close>
  "gather xs idx =
     (if list_all (\<lambda>i. i < length xs) idx then Inr (map (\<lambda>i. xs ! i) idx)
      else Inl IndexError)"

definition train_test_split ::
  "('v, 'm) lib \<Rightarrow> nat \<Rightarrow> 'v list list \<Rightarrow> 'v list \<Rightarrow> nat \<times> nat \<Rightarrow> nat option
     \<Rightarrow> error + ('v list list \<times> 'v list list \<times> 'v list \<times> 'v list)" where
  \<comment> \<open>scikit-learn's \<open>train_test_split(X, y, train_size=..., random_state=...)\<close>:
      \<open>floor(train_size * n)\<close> training examples, the rest for testing, both drawn from
      one permutation of the indices. The generator is seeded with \<open>random_state\<close>
      when it is an integer, and from the operating system's entropy (the argument
      \<open>entropy\<close>, which differs from run to run) when it is \<open>None\<close>.\<close>
  "train_test_split L entropy X y fraction random_state =
     (let n_samples = length X in
      if length y \<noteq> n_samples then Inl ValueError
      else
        let n_train = (fst fraction * n_samples) div snd fraction;
            n_test = n_samples - n_train
        in
          if n_train = 0 then Inl ValueError
          else
            let seed = (case random_state of None \<Rightarrow> entropy | Some s \<Rightarrow> s);
                perm = permutation L seed n_samples;
                ind_test = take n_test perm;
                ind_train = take n_train (drop n_test perm)
            in
              (case gather X ind_train of Inl e \<Rightarrow> Inl e | Inr X_train \<Rightarrow>
               case gather X ind_test of Inl e \<Rightarrow> Inl e | Inr X_test \<Rightarrow>
               case gather y ind_train of Inl e \<Rightarrow> Inl e | Inr y_train \<Rightarrow>
               case gather y ind_test of Inl e \<Rightarrow> Inl e | Inr y_test \<Rightarrow>
                 Inr (X_train, X_test, y_train, y_test)))"

definition cell_15 ::
  "('v, 'm) lib \<Rightarrow> nat \<Rightarrow> ('v, 'm) kernel \<Rightarrow> ('v, 'm) kernel outcome" where
  "cell_15 L entropy k =
     (case var (Xs k) of Inl e \<Rightarrow> Inl (e, k) | Inr X \<Rightarrow>
      case var (ys k) of Inl e \<Rightarrow> Inl (e, k) | Inr y \<Rightarrow>
      case train_test_split L entropy X y train_size (Some 42) of
        Inl e \<Rightarrow> Inl (e, k)
      | Inr (X_train, X_test, y_train, y_test) \<Rightarrow>
          Inr (k\<lparr>Xs_train := Some X_train, Xs_test := Some X_test,
                 ys_train := Some y_train, ys_test := Some y_test\<rparr>))"

subsection \<open>Cell 18: the projection\<close>

definition PCA_fit_transform ::
  "('v, 'm) lib \<Rightarrow> bool \<Rightarrow> nat \<Rightarrow> 'v list list \<Rightarrow> error + ('v list list \<times> 'v list list)" where
  \<comment> \<open>Modelled from the spec: \<open>PCA(n_components, copy=...).fit_transform(X)\<close> is
      scikit-learn's and missing from the sources. The spec: "Project training features
      into a lower-dimensional space"; the notebook: "Given n\_features (1280 in our
      case), PCA computes a new set of X [60] that best explain the data". Every row,
      centred, is projected on the first \<open>n_components\<close> principal axes of the matrix.
      From scikit-learn's documentation: the input must be a non-empty rectangular array
      without NaN or infinite entries, a matrix has no more principal axes than the
      smaller of its two dimensions, and \<open>ValueError\<close> is raised otherwise; with
      \<open>copy=False\<close> the array passed in is overwritten by its centred rows, with
      \<open>copy=True\<close> (the default) it is left as it was. The result is the projection
      and the array passed in as the call leaves it.\<close>
  "PCA_fit_transform L copy n_components X =
     (if X = [] \<or> \<not> list_all (\<lambda>row. length row = snd (shape X) \<and> list_all (isfinite L) row) X
        then Inl ValueError
      else if min (fst (shape X)) (snd (shape X)) < n_components then Inl ValueError
      else
        Inr (map (\<lambda>row. map (\<lambda>j. dot L (centered L X row) (principal_axis L X j))
                         [0..<n_components]) X,
             if copy then X else map (centered L X) X))"

definition cell_18 ::
  "('v, 'm) lib \<Rightarrow> ('v, 'm) kernel \<Rightarrow> ('v, 'm) kernel outcome" where
  \<comment> \<open>\<open>num_pca_components = 60\<close>, \<open>pca = PCA(num_pca_components)\<close> (so \<open>copy\<close> has its
      default), \<open>Xs_train_pca = pca.fit_transform(Xs_train)\<close>. The array \<open>Xs_train\<close> is
      bound to is passed by reference: it is rebound to what the call leaves in it.\<close>
  "cell_18 L k =
     (let k1 = k\<lparr>num_pca_components := Some 60\<rparr> in
      case var (Xs_train k1) of Inl e \<Rightarrow> Inl (e, k1) | Inr X_train \<Rightarrow>
      case PCA_fit_transform L True 60 X_train of
        Inl e \<Rightarrow> Inl (e, k1)
      | Inr (projected, X_left) \<Rightarrow>
          Inr (k1\<lparr>Xs_train := Some X_left, Xs_train_pca := Some projected\<rparr>))"

subsection \<open>Cells 23 and 24: the hyperparameter grids\<close>

definition knn_grid_value :: param_grid where
  "knn_grid_value =
     [[(''model'', [PEst KNeighborsRegressor]),
       (''model__n_neighbors'', [PInt 5, PInt 10]),
       (''model__weights'', [PStr ''uniform'', PStr ''distance'']),
       (''model__algorithm'', [PStr ''ball_tree'', PStr ''kd_tree'', PStr ''brute'']),
       (''model__leaf_size'', [PInt 15, PInt 30]),
       (''model__p'', [PInt 1, PInt 2])]]"

definition svm_grid_value :: param_grid where
  \<comment> \<open>The floats 0.1, 1.0 and 10.0 as fractions.\<close>
  "svm_grid_value =
     [[(''model'', [PEst SVR]),
       (''model__C'', [PFloat 1 10, PFloat 1 1, PFloat 10 1]),
       (''model__kernel'', [PStr ''linear'', PStr ''poly'', PStr ''rbf'', PStr ''sigmoid'']),
       (''model__degree'', [PInt 3]),
       (''model__gamma'', [PStr ''scale''])]]"

definition rfr_grid_value :: param_grid where
  "rfr_grid_value =
     [[(''model'', [PEst RandomForestRegressor]),
       (''model__n_estimators'', [PInt 20]),
       (''model__criterion'', [PStr ''squared_error'', PStr ''absolute_error'']),
       (''model__max_features'', [PStr ''sqrt'', PStr ''log2'']),
       (''model__min_samples_split'', [PInt 5, PInt 10]),
       (''model__min_samples_leaf'', [PInt 1, PInt 4])]]"

definition cell_23 :: "('v, 'm) kernel \<Rightarrow> ('v, 'm) kernel outcome" where
  "cell_23 k =
     Inr (k\<lparr>knn_grid := Some knn_grid_value, svm_grid := Some svm_grid_value,
            rfr_grid := Some rfr_grid_value\<rparr>)"

definition cell_24 :: "('v, 'm) kernel \<Rightarrow> ('v, 'm) kernel outcome" where
  \<comment> \<open>\<open>cls_list\<close> is bound before the three grids are read.\<close>
  "cell_24 k =
     (let k1 = k\<lparr>cls_list := Some [KNeighborsRegressor, SVR, RandomForestRegressor]\<rparr> in
      case var (knn_grid k1) of Inl e \<Rightarrow> Inl (e, k1) | Inr knn \<Rightarrow>
      case var (svm_grid k1) of Inl e \<Rightarrow> Inl (e, k1) | Inr svm \<Rightarrow>
      case var (rfr_grid k1) of Inl e \<Rightarrow> Inl (e, k1) | Inr rfr \<Rightarrow>
        Inr (k1\<lparr>param_grid_list := Some [knn, svm, rfr]\<rparr>))"

subsection \<open>Grid search\<close>

fun str_less :: "string \<Rightarrow> string \<Rightarrow> bool" where
  \<comment> \<open>Python's \<open><\<close> on strings: by code point, a proper prefix first.\<close>
  "str_less [] [] = False"
| "str_less [] (d # ds) = True"
| "str_less (c # cs) [] = False"
| "str_less (c # cs) (d # ds) =
     ((of_char c :: nat) < of_char d \<or> c = d \<and> str_less cs ds)"

fun insert_item :: "string \<times> 'a \<Rightarrow> (string \<times> 'a) list \<Rightarrow> (string \<times> 'a) list" where
  "insert_item x [] = [x]"
| "insert_item x (y # rest) =
     (if str_less (fst x) (fst y) then x # y # rest else y # insert_item x rest)"

definition sorted_items :: "(string \<times> 'a) list \<Rightarrow> (string \<times> 'a) list" where
  \<comment> \<open>\<open>sorted(p.items())\<close> of a dictionary: its items by key.\<close>
  "sorted_items items = foldr insert_item items []"

fun dict_product :: "(string \<times> pval list) list \<Rightarrow> candidate list" where
  \<comment> \<open>Every way of choosing one value for each key, the last key changing fastest.\<close>
  "dict_product [] = [[]]"
| "dict_product ((key, values) # rest) =
     concat (map (\<lambda>v. map (\<lambda>c. (key, v) # c) (dict_product rest)) values)"

definition ParameterGrid :: "param_grid \<Rightarrow> candidate list" where
  \<comment> \<open>scikit-learn's \<open>ParameterGrid\<close>: for each dictionary of the grid, the product of
      the value lists of its keys taken in sorted order.\<close>
  "ParameterGrid grid = concat (map (\<lambda>p. dict_product (sorted_items p)) grid)"

fun argmax_from :: "nat \<Rightarrow> 'v::linorder \<Rightarrow> nat \<Rightarrow> 'v list \<Rightarrow> nat" where
  \<comment> \<open>The index of the first largest score: \<open>bi\<close> is the best index so far, \<open>bs\<close> its
      score, \<open>i\<close> the index of the next score.\<close>
  "argmax_from bi bs i [] = bi"
| "argmax_from bi bs i (s # ss) =
     (if bs < s then argmax_from i s (Suc i) ss else argmax_from bi bs (Suc i) ss)"

definition argmax_first :: "'v::linorder list \<Rightarrow> nat" where
  "argmax_first scores = (case scores of [] \<Rightarrow> 0 | s # ss \<Rightarrow> argmax_from 0 s 1 ss)"

definition GridSearchCV_fit ::
  "('v::linorder, 'm) lib \<Rightarrow> pipeline \<Rightarrow> param_grid \<Rightarrow> 'v list list \<Rightarrow> 'v list
     \<Rightarrow> error + ('v, 'm) grid_search" where
  \<comment> \<open>Modelled from the spec: \<open>GridSearchCV(estimator, param_grid, scoring='r2').fit(X, y)\<close>
      is scikit-learn's and missing from the sources. The spec: "Grid search: exhaustive
      evaluation of a predefined set of hyperparameter combinations to select the
      best-performing configuration". Every combination of the grid is scored on
      \<open>(X, y)\<close>, the first of the best-scoring ones is kept and refitted.\<close>
  "GridSearchCV_fit L estimator grid X y =
     (let candidates = ParameterGrid grid in
      if candidates = [] then Inl ValueError
      else
        let scores = map (\<lambda>c. cv_score L estimator c X y) candidates;
            best = argmax_first scores
        in Inr \<lparr>cv_results = zip candidates scores, best_index = best,
                 best_estimator = refit L estimator (candidates ! best) X y\<rparr>)"

definition grid_predict :: "('v, 'm) lib \<Rightarrow> ('v, 'm) grid_search \<Rightarrow> 'v list list \<Rightarrow> 'v list" where
  \<comment> \<open>\<open>grid.predict(X)\<close>: the prediction of the best estimator.\<close>
  "grid_predict L grid X = predict L (best_estimator grid) X"

subsection \<open>Compiling a cell\<close>

text \<open>
  Python compiles the whole text of a cell before it runs its first statement, and the
  tokenizer raises \<open>SyntaxError\<close> when a bracket is left open at the end of the text,
  or closed without having been opened. \<open>brackets_close\<close> is that check: it reads the
  text outside string literals and comments, with the stack of the brackets that are
  open.
\<close>

datatype lex_mode = Code | Quoted | Comment

definition closes :: "char \<Rightarrow> char \<Rightarrow> bool" where
  "closes l r =
     (l = CHR ''('' \<and> r = CHR '')'' \<or> l = CHR ''['' \<and> r = CHR '']''
      \<or> l = CHR ''{'' \<and> r = CHR ''}'')"

fun brackets_close :: "lex_mode \<Rightarrow> char list \<Rightarrow> char list \<Rightarrow> bool" where
  "brackets_close m stack [] = (stack = [] \<and> m \<noteq> Quoted)"
| "brackets_close Code stack (c # cs) =
     (if c = CHR ''#'' then brackets_close Comment stack cs
      else if c = CHR 0x27 then brackets_close Quoted stack cs
      else if c = CHR ''('' \<or> c = CHR ''['' \<or> c = CHR ''{''
        then brackets_close Code (c # stack) cs
      else if c = CHR '')'' \<or> c = CHR '']'' \<or> c = CHR ''}''
        then (case stack of
                [] \<Rightarrow> False
              | l # rest \<Rightarrow> closes l c \<and> brackets_close Code rest cs)
      else brackets_close Code stack cs)"
| "brackets_close Quoted stack (c # cs) =
     (if c = CHR 0x27 then brackets_close Code stack cs
      else brackets_close Quoted stack cs)"
| "brackets_close Comment stack (c # cs) =
     (if c = CHR 0x0A then brackets_close Code stack cs
      else brackets_close Comment stack cs)"

definition cell_text :: "string list \<Rightarrow> string" where
  "cell_text lines = concat (map (\<lambda>l. l @ [CHR 0x0A]) lines)"

definition compiles :: "string list \<Rightarrow> bool" where
  "compiles lines = brackets_close Code [] (cell_text lines)"

definition run_cell ::
  "string list \<Rightarrow> ('k \<Rightarrow> 'k outcome) \<Rightarrow> 'k \<Rightarrow> 'k outcome" where
  \<comment> \<open>A cell whose text does not compile raises \<open>SyntaxError\<close> and runs nothing.\<close>
  "run_cell lines body k = (if compiles lines then body k else Inl (SyntaxError, k))"



subsection \<open>Cell 26: running the grid search\<close>

definition cell_26_source :: "string list" where
  "cell_26_source =
     [''# make sure data preprocessing (PCA here) is run inside CV to avoid data leakage'',
      ''pipe = Pipeline(steps=(('pca', PCA(num_pca_components), ('model', 'passthrough')))'',
      [],
      ''result_list = []'',
      ''grid_list = []'',
      ''for cls_name, param_grid in zip(cls_list, param_grid_list):'',
      ''    print(cls_name)'',
      ''    grid = GridSearchCV('',
      ''        estimator = pipe,'',
      ''        param_grid = param_grid,'',
      ''        scoring = 'r2','',
      ''        verbose = 1,'',
      ''        n_jobs = -1 # use all available cores'',
      ''    )'',
      ''    grid.fit(Xs_train, ys_train)'',
      ''    result_list.append(pd.DataFrame.from_dict(grid.cv_results_))'',
      ''    grid_list.append(grid)'']"

fun search_loop ::
  "('v::linorder, 'm) lib \<Rightarrow> pipeline \<Rightarrow> (estimator \<times> param_grid) list
     \<Rightarrow> ('v, 'm) kernel \<Rightarrow> ('v, 'm) kernel outcome" where
  \<comment> \<open>The \<open>for cls_name, param_grid in zip(...)\<close> loop: print, build the search, fit it
      on \<open>Xs_train\<close> and \<open>ys_train\<close>, append to \<open>result_list\<close> and \<open>grid_list\<close>.\<close>
  "search_loop L p [] k = Inr k"
| "search_loop L p ((cls_name, param_grid) # rest) k =
     (let k1 = k\<lparr>stdout := stdout k @ [PrintClass cls_name]\<rparr> in
      case var (Xs_train k1) of Inl e \<Rightarrow> Inl (e, k1) | Inr X \<Rightarrow>
      case var (ys_train k1) of Inl e \<Rightarrow> Inl (e, k1) | Inr y \<Rightarrow>
      case GridSearchCV_fit L p param_grid X y of Inl e \<Rightarrow> Inl (e, k1) | Inr grid \<Rightarrow>
      case var (result_list k1) of Inl e \<Rightarrow> Inl (e, k1) | Inr results \<Rightarrow>
      case var (grid_list k1) of
        Inl e \<Rightarrow> Inl (e, k1\<lparr>result_list := Some (results @ [cv_results grid])\<rparr>)
      | Inr grids \<Rightarrow>
          search_loop L p rest
            (k1\<lparr>result_list := Some (results @ [cv_results grid]),
                grid_list := Some (grids @ [grid])\<rparr>))"

definition cell_26_body ::
  "('v::linorder, 'm) lib \<Rightarrow> ('v, 'm) kernel \<Rightarrow> ('v, 'm) kernel outcome" where
  \<comment> \<open>The statements of the cell, for a text that compiles: the pipeline of the two
      steps its second line names, with the \<open>num_pca_components\<close> the kernel binds.\<close>
  "cell_26_body L k =
     (case var (num_pca_components k) of Inl e \<Rightarrow> Inl (e, k) | Inr n \<Rightarrow>
      let p = [(''pca'', PCA n), (''model'', Passthrough)];
          k1 = k\<lparr>pipe := Some p, result_list := Some [], grid_list := Some []\<rparr>
      in
        case var (cls_list k1) of Inl e \<Rightarrow> Inl (e, k1) | Inr classes \<Rightarrow>
        case var (param_grid_list k1) of Inl e \<Rightarrow> Inl (e, k1) | Inr grids \<Rightarrow>
          search_loop L p (zip classes grids) k1)"

definition cell_26 ::
  "('v::linorder, 'm) lib \<Rightarrow> ('v, 'm) kernel \<Rightarrow> ('v, 'm) kernel outcome" where
  "cell_26 L = run_cell cell_26_source (cell_26_body L)"

subsection \<open>Cell 35: evaluation\<close>

fun eval_loop ::
  "('v, 'm) lib \<Rightarrow> ('v, 'm) grid_search list \<Rightarrow> ('v, 'm) kernel
     \<Rightarrow> ('v, 'm) kernel outcome" where
  \<comment> \<open>The \<open>for grid in grid_list\<close> loop: \<open>Xs_test\<close> and \<open>ys_test\<close> are read after the
      model has been printed.\<close>
  "eval_loop L [] k = Inr k"
| "eval_loop L (grid # rest) k =
     (let k1 = k\<lparr>stdout := stdout k @ [PrintModel (best_estimator grid), PrintBlank]\<rparr> in
      case var (Xs_test k1) of Inl e \<Rightarrow> Inl (e, k1) | Inr X_test \<Rightarrow>
      let preds = grid_predict L grid X_test in
      case var (ys_test k1) of Inl e \<Rightarrow> Inl (e, k1) | Inr y_test \<Rightarrow>
        eval_loop L rest
          (k1\<lparr>stdout := stdout k1 @ [PrintSpearman (spearmanr L y_test preds), PrintRule]\<rparr>))"

definition cell_35 ::
  "('v, 'm) lib \<Rightarrow> ('v, 'm) kernel \<Rightarrow> ('v, 'm) kernel outcome" where
  "cell_35 L k =
     (case var (grid_list k) of Inl e \<Rightarrow> Inl (e, k) | Inr grids \<Rightarrow> eval_loop L grids k)"

subsection \<open>Running the notebook\<close>

fun run_cells :: "('k \<Rightarrow> 'k outcome) list \<Rightarrow> 'k \<Rightarrow> 'k \<times> error option" where
  \<comment> \<open>Cells run in order; the first exception ends the run. The result is the kernel
      as the last cell that ran has left it, and the exception if there was one.\<close>
  "run_cells [] k = (k, None)"
| "run_cells (c # cs) k =
     (case c k of Inl (e, k') \<Rightarrow> (k', Some e) | Inr k' \<Rightarrow> run_cells cs k')"

definition notebook ::
  "('v::linorder, 'm) lib \<Rightarrow> nat \<Rightarrow> (('v, 'm) kernel \<Rightarrow> ('v, 'm) kernel outcome) list" where
  \<comment> \<open>The cells that bind a variable another cell reads, or print; the others import,
      configure, plot or display a table.\<close>
  "notebook L entropy =
     [cell_13 L, cell_15 L entropy, cell_18 L, cell_23, cell_24, cell_26 L, cell_35 L]"

definition run_notebook ::
  "('v::linorder, 'm) lib \<Rightarrow> nat \<Rightarrow> ('v, 'm) kernel \<times> error option" where
  "run_notebook L entropy = run_cells (notebook L entropy) fresh_kernel"

subsection \<open>A small instance\<close>

text \<open>
  Five records with two-dimensional embeddings, and stand-ins for the libraries that can
  be evaluated: the theorems below are instantiated on them.
\<close>

definition example_records :: "(string \<times> string) list" where
  "example_records =
     [(''>0|A24C|1'', ''MC''), (''>1|A24D|2'', ''MD''), (''>2|A24E|3'', ''ME''),
      (''>3|A24F|4'', ''MF''), (''>4|A24G|5'', ''MG'')]"

definition example_float :: "string \<Rightarrow> int option" where
  "example_float s =
     (if s = ''1'' then Some 1 else if s = ''2'' then Some 2 else if s = ''3'' then Some 3
      else if s = ''4'' then Some 4 else if s = ''5'' then Some 5 else None)"

definition emb_dict :: "int list \<Rightarrow> (string \<rightharpoonup> (nat \<rightharpoonup> int list))" where
  "emb_dict t =
     (\<lambda>key. if key = ''mean_representations''
            then Some (\<lambda>layer. if layer = 34 then Some t else None) else None)"

definition example_embeddings :: "string \<Rightarrow> (string \<rightharpoonup> (nat \<rightharpoonup> int list)) option" where
  "example_embeddings fn =
     (if fn = ''./P62593_reprs//0|A24C|1.pt'' then Some (emb_dict [1, 0])
      else if fn = ''./P62593_reprs//1|A24D|2.pt'' then Some (emb_dict [0, 1])
      else if fn = ''./P62593_reprs//2|A24E|3.pt'' then Some (emb_dict [1, 1])
      else if fn = ''./P62593_reprs//3|A24F|4.pt'' then Some (emb_dict [2, 1])
      else if fn = ''./P62593_reprs//4|A24G|5.pt'' then Some (emb_dict [1, 2])
      else None)"

definition example_lib :: "(int, candidate) lib" where
  "example_lib =
     \<lparr>read_fasta = (\<lambda>path. if path = FASTA_PATH then Inr example_records else Inl OSError),
      py_float = example_float,
      torch_load = example_embeddings,
      permutation = (\<lambda>seed n. if even seed then [0..<n] else rev [0..<n]),
      isfinite = (\<lambda>v. True),
      principal_axis = (\<lambda>X j. (replicate (snd (shape X)) 0)[j := 1]),
      centered = (\<lambda>X row. row),
      dot = (\<lambda>a b. sum_list (map2 (*) a b)),
      cv_score = (\<lambda>p c X y. 0),
      refit = (\<lambda>p c X y. c),
      predict = (\<lambda>m X. map sum_list X),
      spearmanr = (\<lambda>a b. (if a = b then 1 else 0, 0))\<rparr>"

definition example_loaded :: "(int, candidate) kernel" where
  "example_loaded =
     fresh_kernel\<lparr>ys := Some [1, 2, 3, 4, 5],
                  Xs := Some [[1, 0], [0, 1], [1, 1], [2, 1], [1, 2]],
                  stdout := [PrintNat 5, PrintShape 5 2]\<rparr>"

definition ragged_embeddings :: "string \<Rightarrow> (string \<rightharpoonup> (nat \<rightharpoonup> int list)) option" where
  "ragged_embeddings fn =
     (if fn = ''./P62593_reprs//0|A24C|1.pt'' then Some (emb_dict [1, 0, 0])
      else example_embeddings fn)"

definition example_split :: "(int, candidate) kernel" where
  \<comment> \<open>The kernel after the split cell on \<open>example_loaded\<close>.\<close>
  "example_split =
     example_loaded\<lparr>Xs_train := Some [[0, 1], [1, 1], [2, 1], [1, 2]], Xs_test := Some [[1, 0]],
                    ys_train := Some [2, 3, 4, 5], ys_test := Some [1]\<rparr>"

definition one_file_missing :: "string \<Rightarrow> (string \<rightharpoonup> (nat \<rightharpoonup> int list)) option" where
  \<comment> \<open>The embeddings of the instance without the file of the third record.\<close>
  "one_file_missing fn =
     (if fn = ''./P62593_reprs//2|A24E|3.pt'' then None else example_embeddings fn)"

subsection \<open>A wide instance\<close>

text \<open>
  Seventy-five records with embeddings of 1280 features, so that the split leaves sixty
  training examples and the projection on sixty components can be computed.
\<close>

definition wide_records :: "(string \<times> string) list" where
  "wide_records = replicate 75 (''>0|A24C|1'', ''MC'')"

definition wide_lib :: "(int, candidate) lib" where
  "wide_lib =
     example_lib
       \<lparr>read_fasta := (\<lambda>path. if path = FASTA_PATH then Inr wide_records else Inl OSError),
        torch_load := (\<lambda>fn. if fn = ''./P62593_reprs//0|A24C|1.pt''
                             then Some (emb_dict (replicate 1280 0)) else None)\<rparr>"

definition wide_loaded :: "(int, candidate) kernel" where
  "wide_loaded =
     fresh_kernel\<lparr>ys := Some (replicate 75 1), Xs := Some (replicate 75 (replicate 1280 0)),
                  stdout := [PrintNat 75, PrintShape 75 1280]\<rparr>"

definition wide_split :: "(int, candidate) kernel" where
  "wide_split =
     wide_loaded\<lparr>Xs_train := Some (replicate 60 (replicate 1280 0)),
                 Xs_test := Some (replicate 15 (replicate 1280 0)),
                 ys_train := Some (replicate 60 1), ys_test := Some (replicate 15 1)\<rparr>"




definition short_lib :: "(int, candidate) lib" where
  \<comment> \<open>The wide instance with two records only: one training example.\<close>
  "short_lib =
     wide_lib\<lparr>read_fasta := (\<lambda>path. if path = FASTA_PATH
                                    then Inr (replicate 2 (''>0|A24C|1'', ''MC''))
                                    else Inl OSError)\<rparr>"

definition short_split :: "(int, candidate) kernel" where
  \<comment> \<open>The kernel after the loading and split cells on \<open>short_lib\<close>.\<close>
  "short_split =
     fresh_kernel\<lparr>ys := Some (replicate 2 1), Xs := Some (replicate 2 (replicate 1280 0)),
                  stdout := [PrintNat 2, PrintShape 2 1280],
                  Xs_train := Some (replicate 1 (replicate 1280 0)),
                  Xs_test := Some (replicate 1 (replicate 1280 0)),
                  ys_train := Some (replicate 1 1), ys_test := Some (replicate 1 1)\<rparr>"

subsection \<open>What is observed of a run\<close>



definition rebinding :: "('k \<Rightarrow> 'k) \<Rightarrow> 'k outcome \<Rightarrow> 'k outcome" where
  \<comment> \<open>The outcome with \<open>f\<close> applied to the kernel it leaves.\<close>
  "rebinding f r = map_sum (map_prod id f) f r"

definition rank_correlations :: "('v, 'm) printed list \<Rightarrow> ('v \<times> 'v) list" where
  \<comment> \<open>The rank-correlation statistics among the printed output, in the order printed.\<close>
  "rank_correlations out =
     concat (map (\<lambda>line. case line of PrintSpearman r \<Rightarrow> [r] | _ \<Rightarrow> []) out)"

definition before_search :: "('v, 'm) kernel \<Rightarrow> bool" where
  \<comment> \<open>No grid has been fitted and no rank correlation printed.\<close>
  "before_search k =
     (grid_list k = None \<and> result_list k = None \<and> rank_correlations (stdout k) = [])"

section \<open>Properties\<close>

subsection \<open>Loading (cell 13)\<close>

lemma split_on_nonempty: "split_on sep s \<noteq> []"
  by (induction s) (auto split: list.splits)

lemma load_loop_appends:
  "load_loop L recs ya xa = Inr (yl, xl) \<Longrightarrow>
   \<exists>ys' xs'. yl = ya @ ys' \<and> xl = xa @ xs' \<and>
     list_all2 (\<lambda>r y. py_float L (last (split_on CHR ''|'' (fst r))) = Some y) recs ys' \<and>
     list_all2 (\<lambda>r t. mean_representation L (fst r) = Inr t) recs xs'"
proof (induction recs arbitrary: ya xa)
  case Nil
  then show ?case by simp
next
  case (Cons r recs)
  obtain header seq where r: "r = (header, seq)" by (cases r)
  from Cons.prems r obtain y t where
    y: "py_float L (last (split_on CHR ''|'' header)) = Some y" and
    t: "mean_representation L header = Inr t" and
    rest: "load_loop L recs (ya @ [y]) (xa @ [t]) = Inr (yl, xl)"
    by (auto simp: Let_def split: option.splits sum.splits)
  from Cons.IH [OF rest] obtain ys' xs' where
    "yl = (ya @ [y]) @ ys'" "xl = (xa @ [t]) @ xs'"
    "list_all2 (\<lambda>r y. py_float L (last (split_on CHR ''|'' (fst r))) = Some y) recs ys'"
    "list_all2 (\<lambda>r t. mean_representation L (fst r) = Inr t) recs xs'"
    by blast
  then have "yl = ya @ (y # ys') \<and> xl = xa @ (t # xs') \<and>
     list_all2 (\<lambda>r y. py_float L (last (split_on CHR ''|'' (fst r))) = Some y) (r # recs) (y # ys') \<and>
     list_all2 (\<lambda>r t. mean_representation L (fst r) = Inr t) (r # recs) (t # xs')"
    using y t r by simp
  then show ?case by blast
qed

lemma load_loop_fails:
  "r \<in> set recs \<Longrightarrow>
   py_float L (last (split_on CHR ''|'' (fst r))) = None \<or> (\<exists>e. mean_representation L (fst r) = Inl e) \<Longrightarrow>
   \<exists>e yp xp. load_loop L recs ya xa = Inl (e, ya @ yp, xa @ xp) \<and>
     length xp < length recs \<and> length xp \<le> length yp \<and> length yp \<le> Suc (length xp)"
proof (induction recs arbitrary: ya xa)
  case Nil
  then show ?case by simp
next
  case (Cons a recs)
  obtain header seq where a: "a = (header, seq)" by (cases a)
  show ?case
  proof (cases "py_float L (last (split_on CHR ''|'' header))")
    case None
    then have "load_loop L (a # recs) ya xa = Inl (ValueError, ya @ [], xa @ [])"
      using a by (simp add: Let_def)
    then show ?thesis by (intro exI [of _ ValueError] exI [of _ "[]"]) simp
  next
    case (Some y)
    show ?thesis
    proof (cases "mean_representation L header")
      case (Inl e)
      then have "load_loop L (a # recs) ya xa = Inl (e, ya @ [y], xa @ [])"
        using a Some by (simp add: Let_def)
      then show ?thesis by (intro exI [of _ e] exI [of _ "[y]"] exI [of _ "[]"]) simp
    next
      case (Inr t)
      with Some a Cons.prems have "r \<in> set recs" by auto
      from Cons.IH [OF this Cons.prems(2), of "ya @ [y]" "xa @ [t]"] obtain e yp xp where
        l: "load_loop L recs (ya @ [y]) (xa @ [t]) = Inl (e, (ya @ [y]) @ yp, (xa @ [t]) @ xp)" and
        b: "length xp < length recs" "length xp \<le> length yp" "length yp \<le> Suc (length xp)"
        by blast
      from l have "load_loop L (a # recs) ya xa = Inl (e, ya @ (y # yp), xa @ (t # xp))"
        using a Some Inr by (simp add: Let_def)
      with b show ?thesis by (intro exI [of _ e] exI [of _ "y # yp"] exI [of _ "t # xp"]) simp
    qed
  qed
qed

lemma torch_stack_Inr:
  "torch_stack ts = Inr X \<Longrightarrow> X = ts \<and> ts \<noteq> [] \<and> (\<forall>row \<in> set ts. length row = snd (shape ts))"
  by (cases ts) (auto simp: torch_stack_def shape_def list_all_iff split: if_splits)

lemma missing_file: "torch_load L (emb_file header) = None \<Longrightarrow> mean_representation L header = Inl FileNotFoundError"
  by (simp add: mean_representation_def)

lemma mean_representation_Inr:
  "mean_representation L header = Inr t \<longleftrightarrow>
   (\<exists>embs reps. torch_load L (emb_file header) = Some embs \<and>
      embs ''mean_representations'' = Some reps \<and> reps EMB_LAYER = Some t)"
  by (auto simp: mean_representation_def split: option.splits)

lemma cell_13_Inr:
  "cell_13 L k = Inr k' \<Longrightarrow>
   \<exists>records ys_list X. read_fasta L FASTA_PATH = Inr records \<and>
      load_loop L records [] [] = Inr (ys_list, X) \<and> torch_stack X = Inr X \<and>
      k' = k\<lparr>ys := Some ys_list, Xs := Some X,
             stdout := stdout k @ [PrintNat (length ys_list), PrintShape (fst (shape X)) (snd (shape X))]\<rparr>"
  by (auto simp: cell_13_def split: sum.splits prod.splits dest: torch_stack_Inr)

lemmas example_load_defs =
  cell_13_def example_lib_def example_records_def
  mean_representation_def emb_file_def EMB_PATH_def EMB_LAYER_def example_float_def
  example_embeddings_def emb_dict_def torch_stack_def shape_def fresh_kernel_def FASTA_PATH_def
  example_loaded_def

lemma example_read_fasta: "read_fasta example_lib FASTA_PATH = Inr example_records"
  by (simp add: example_lib_def)

lemma example_cell_13: "cell_13 example_lib fresh_kernel = Inr example_loaded"
  by (simp add: example_load_defs)

lemma list_all2_pick:
  "list_all2 P as bs \<Longrightarrow> a \<in> set as \<Longrightarrow> \<exists>b \<in> set bs. P a b"
  by (induction rule: list_all2_induct) auto

lemma cell_13_loaded:
  assumes "read_fasta L FASTA_PATH = Inr records" and "cell_13 L k = Inr k'"
  shows "\<exists>ys_list X. ys k' = Some ys_list \<and> Xs k' = Some X \<and> X \<noteq> [] \<and>
           (\<forall>row \<in> set X. length row = snd (shape X)) \<and>
           list_all2 (\<lambda>r y. py_float L (last (split_on CHR ''|'' (fst r))) = Some y) records ys_list \<and>
           list_all2 (\<lambda>r t. mean_representation L (fst r) = Inr t) records X"
proof -
  from cell_13_Inr [OF assms(2)] assms(1) obtain ys_list X where
    loop: "load_loop L records [] [] = Inr (ys_list, X)" and
    stack: "torch_stack X = Inr X" and
    k': "k' = k\<lparr>ys := Some ys_list, Xs := Some X,
             stdout := stdout k @ [PrintNat (length ys_list), PrintShape (fst (shape X)) (snd (shape X))]\<rparr>"
    by auto
  from load_loop_appends [OF loop] have
    "list_all2 (\<lambda>r y. py_float L (last (split_on CHR ''|'' (fst r))) = Some y) records ys_list"
    "list_all2 (\<lambda>r t. mean_representation L (fst r) = Inr t) records X"
    by auto
  with torch_stack_Inr [OF stack] k' show ?thesis by simp
qed

lemma cell_13_fails:
  assumes "read_fasta L FASTA_PATH = Inr records" and "(header, seq) \<in> set records"
    and "torch_load L (emb_file header) = None \<or> py_float L (last (split_on CHR ''|'' header)) = None"
  shows "\<exists>e ys_part Xs_part.
           (\<forall>k. cell_13 L k = Inl (e, k\<lparr>ys := Some ys_part, Xs := Some Xs_part\<rparr>)) \<and>
           length Xs_part < length records \<and> length Xs_part \<le> length ys_part \<and>
           length ys_part \<le> Suc (length Xs_part)"
proof -
  from assms(3) have
    "py_float L (last (split_on CHR ''|'' (fst (header, seq)))) = None \<or>
     (\<exists>e. mean_representation L (fst (header, seq)) = Inl e)"
    by (auto simp: missing_file)
  from load_loop_fails [OF assms(2) this, of "[]" "[]"] obtain e yp xp where
    "load_loop L records [] [] = Inl (e, yp, xp)"
    "length xp < length records" "length xp \<le> length yp" "length yp \<le> Suc (length xp)"
    by auto
  with assms(1) show ?thesis by (auto simp: cell_13_def)
qed

text \<open>
  C9. Labels and features stay aligned through loading: when the loading cell completes,
  there are as many labels as rows of the feature matrix, both as many as FASTA records,
  and for every index \<open>i\<close> the \<open>i\<close>-th label is the number parsed from the last
  \<open>|\<close>-separated field of the \<open>i\<close>-th header, while the \<open>i\<close>-th row is the layer-34 mean
  representation stored in the file named after that header without its first
  character.
\<close>

theorem load_aligns_labels_and_features:
  assumes "read_fasta L FASTA_PATH = Inr records" and "cell_13 L k = Inr k'"
  shows "\<exists>ys_list X. ys k' = Some ys_list \<and> Xs k' = Some X \<and>
           length ys_list = length records \<and> length X = length records \<and>
           (\<forall>i < length records.
              py_float L (last (split_on CHR ''|'' (fst (records ! i)))) = Some (ys_list ! i) \<and>
              (\<exists>embs reps.
                 torch_load L (EMB_PATH @ ''/'' @ drop 1 (fst (records ! i)) @ ''.pt'') = Some embs \<and>
                 embs ''mean_representations'' = Some reps \<and> reps 34 = Some (X ! i)))"
proof -
  from cell_13_loaded [OF assms] obtain ys_list X where
    b: "ys k' = Some ys_list" "Xs k' = Some X" and
    l: "list_all2 (\<lambda>r y. py_float L (last (split_on CHR ''|'' (fst r))) = Some y) records ys_list" and
    f: "list_all2 (\<lambda>r t. mean_representation L (fst r) = Inr t) records X"
    by blast
  have "\<forall>i < length records.
          py_float L (last (split_on CHR ''|'' (fst (records ! i)))) = Some (ys_list ! i) \<and>
          (\<exists>embs reps.
             torch_load L (EMB_PATH @ ''/'' @ drop 1 (fst (records ! i)) @ ''.pt'') = Some embs \<and>
             embs ''mean_representations'' = Some reps \<and> reps 34 = Some (X ! i))"
    using l f
    by (auto simp: list_all2_conv_all_nth mean_representation_Inr emb_file_def EMB_LAYER_def)
  moreover have "length ys_list = length records" "length X = length records"
    using l f by (auto dest: list_all2_lengthD)
  ultimately show ?thesis using b by blast
qed

theorem load_aligns_labels_and_features_witness:
  "read_fasta example_lib FASTA_PATH = Inr example_records \<and>
   cell_13 example_lib fresh_kernel = Inr example_loaded \<and>
   (\<exists>ys_list X. ys example_loaded = Some ys_list \<and> Xs example_loaded = Some X \<and>
      length ys_list = 5 \<and> length X = 5 \<and>
      py_float example_lib (last (split_on CHR ''|'' (fst (example_records ! 2)))) = Some (ys_list ! 2) \<and>
      (\<exists>embs reps.
         torch_load example_lib (EMB_PATH @ ''/'' @ drop 1 (fst (example_records ! 2)) @ ''.pt'') = Some embs \<and>
         embs ''mean_representations'' = Some reps \<and> reps 34 = Some (X ! 2)))"
proof -
  from load_aligns_labels_and_features [OF example_read_fasta example_cell_13]
  obtain ys_list X where
    a: "ys example_loaded = Some ys_list" "Xs example_loaded = Some X"
       "length ys_list = length example_records" "length X = length example_records" and
    b: "\<forall>i < length example_records.
          py_float example_lib (last (split_on CHR ''|'' (fst (example_records ! i)))) = Some (ys_list ! i) \<and>
          (\<exists>embs reps.
             torch_load example_lib (EMB_PATH @ ''/'' @ drop 1 (fst (example_records ! i)) @ ''.pt'') = Some embs \<and>
             embs ''mean_representations'' = Some reps \<and> reps 34 = Some (X ! i))"
    by blast
  have n: "length example_records = 5" by (simp add: example_records_def)
  from b n have "py_float example_lib (last (split_on CHR ''|'' (fst (example_records ! 2)))) = Some (ys_list ! 2) \<and>
          (\<exists>embs reps.
             torch_load example_lib (EMB_PATH @ ''/'' @ drop 1 (fst (example_records ! 2)) @ ''.pt'') = Some embs \<and>
             embs ''mean_representations'' = Some reps \<and> reps 34 = Some (X ! 2))"
    by simp
  with a n example_read_fasta example_cell_13 show ?thesis by auto
qed

text \<open>
  C7. A record whose embedding file is missing, or whose last header field is not a
  number, makes the loading cell raise. Nothing catches the exception: the run of the
  notebook ends with it. The kernel is left with \<open>ys\<close> and \<open>Xs\<close> as the appends made
  before the failing call have left them (fewer rows than there are records, and at
  most one label more than rows) and with nothing else: no later cell has run, no array
  of the split is bound and nothing is printed, so no stage of the run is handed the
  partly loaded dataset. (The two partial lists stay in the kernel; a cell run by hand
  after the failure would read them.)
\<close>

theorem malformed_record_ends_the_run:
  fixes L :: "('v::linorder, 'm) lib"
  assumes "read_fasta L FASTA_PATH = Inr records" and "(header, seq) \<in> set records"
    and "torch_load L (emb_file header) = None \<or> py_float L (last (split_on CHR ''|'' header)) = None"
  shows "\<exists>e ys_part Xs_part.
           cell_13 L k = Inl (e, k\<lparr>ys := Some ys_part, Xs := Some Xs_part\<rparr>) \<and>
           run_notebook L entropy =
             (fresh_kernel\<lparr>ys := Some ys_part, Xs := Some Xs_part\<rparr>, Some e) \<and>
           length Xs_part < length records \<and> length Xs_part \<le> length ys_part \<and>
           length ys_part \<le> Suc (length Xs_part)"
proof -
  from cell_13_fails [OF assms] obtain e ys_part Xs_part where
    e: "\<And>k. cell_13 L k = Inl (e, k\<lparr>ys := Some ys_part, Xs := Some Xs_part\<rparr>)" and
    b: "length Xs_part < length records" "length Xs_part \<le> length ys_part"
       "length ys_part \<le> Suc (length Xs_part)"
    by blast
  from e [of fresh_kernel] have "run_notebook L entropy =
      (fresh_kernel\<lparr>ys := Some ys_part, Xs := Some Xs_part\<rparr>, Some e)"
    by (simp add: run_notebook_def notebook_def)
  with e [of k] b show ?thesis by blast
qed

theorem malformed_record_ends_the_run_witness:
  "read_fasta (example_lib\<lparr>torch_load := one_file_missing\<rparr>) FASTA_PATH = Inr example_records \<and>
   (''>2|A24E|3'', ''ME'') \<in> set example_records \<and>
   torch_load (example_lib\<lparr>torch_load := one_file_missing\<rparr>) (emb_file ''>2|A24E|3'') = None \<and>
   cell_13 (example_lib\<lparr>torch_load := one_file_missing\<rparr>) fresh_kernel =
     Inl (FileNotFoundError, fresh_kernel\<lparr>ys := Some [1, 2, 3], Xs := Some [[1, 0], [0, 1]]\<rparr>) \<and>
   run_notebook (example_lib\<lparr>torch_load := one_file_missing\<rparr>) 0 =
     (fresh_kernel\<lparr>ys := Some [1, 2, 3], Xs := Some [[1, 0], [0, 1]]\<rparr>, Some FileNotFoundError)"
proof -
  let ?L = "example_lib\<lparr>torch_load := one_file_missing\<rparr>"
  have 1: "read_fasta ?L FASTA_PATH = Inr example_records"
    by (simp add: example_lib_def)
  have 2: "(''>2|A24E|3'', ''ME'') \<in> set example_records"
    by (simp add: example_records_def)
  have 3: "torch_load ?L (emb_file ''>2|A24E|3'') = None"
    by (simp add: one_file_missing_def emb_file_def EMB_PATH_def)
  have 4: "cell_13 ?L fresh_kernel =
     Inl (FileNotFoundError, fresh_kernel\<lparr>ys := Some [1, 2, 3], Xs := Some [[1, 0], [0, 1]]\<rparr>)"
    by (simp add: example_load_defs one_file_missing_def)
  from malformed_record_ends_the_run [OF 1 2 disjI1 [OF 3], of fresh_kernel 0]
  obtain e ys_part Xs_part where
    c: "cell_13 ?L fresh_kernel = Inl (e, fresh_kernel\<lparr>ys := Some ys_part, Xs := Some Xs_part\<rparr>)" and
    r: "run_notebook ?L 0 = (fresh_kernel\<lparr>ys := Some ys_part, Xs := Some Xs_part\<rparr>, Some e)"
    by blast
  from c 4 have "e = FileNotFoundError"
    "fresh_kernel\<lparr>ys := Some ys_part, Xs := Some Xs_part\<rparr>
       = (fresh_kernel\<lparr>ys := Some [1, 2, 3], Xs := Some [[1, 0], [0, 1]]\<rparr> :: (int, candidate) kernel)"
    by simp_all
  with r 1 2 3 4 show ?thesis by simp
qed

text \<open>
  C6 (amended). Every loaded example has the same dimensionality, whatever it is: when
  the loading cell completes, every row of \<open>Xs\<close> has the length the cell prints as the
  second component of \<open>Xs.shape\<close>; and when the embeddings of two records differ in
  length, the cell does not complete (\<open>torch.stack\<close> raises). The notebook configures
  no embedding dimensionality and compares the rows with none.
\<close>

theorem loaded_features_share_one_dimension:
  assumes "read_fasta L FASTA_PATH = Inr records"
  shows "(cell_13 L k = Inr k' \<longrightarrow>
            (\<exists>X. Xs k' = Some X \<and> (\<forall>row \<in> set X. length row = snd (shape X)))) \<and>
         ((h1, s1) \<in> set records \<and> (h2, s2) \<in> set records \<and>
          mean_representation L h1 = Inr t1 \<and> mean_representation L h2 = Inr t2 \<and>
          length t1 \<noteq> length t2 \<longrightarrow> (\<exists>e k''. cell_13 L k = Inl (e, k'')))"
proof (intro conjI impI)
  assume "cell_13 L k = Inr k'"
  from cell_13_loaded [OF assms this]
  show "\<exists>X. Xs k' = Some X \<and> (\<forall>row \<in> set X. length row = snd (shape X))" by blast
next
  assume d: "(h1, s1) \<in> set records \<and> (h2, s2) \<in> set records \<and>
          mean_representation L h1 = Inr t1 \<and> mean_representation L h2 = Inr t2 \<and>
          length t1 \<noteq> length t2"
  show "\<exists>e k''. cell_13 L k = Inl (e, k'')"
  proof (cases "cell_13 L k")
    case (Inl a)
    then show ?thesis by (cases a) auto
  next
    case (Inr k'')
    from cell_13_loaded [OF assms Inr] obtain X where
      same: "\<forall>row \<in> set X. length row = snd (shape X)" and
      f: "list_all2 (\<lambda>r t. mean_representation L (fst r) = Inr t) records X"
      by blast
    from list_all2_pick [OF f, of "(h1, s1)"] d have "t1 \<in> set X" by auto
    moreover from list_all2_pick [OF f, of "(h2, s2)"] d have "t2 \<in> set X" by auto
    ultimately have "length t1 = length t2" using same by simp
    with d show ?thesis by simp
  qed
qed

theorem loaded_features_share_one_dimension_witness:
  "(cell_13 example_lib fresh_kernel = Inr example_loaded \<and>
      (\<exists>X. Xs example_loaded = Some X \<and> (\<forall>row \<in> set X. length row = 2))) \<and>
   (mean_representation (example_lib\<lparr>torch_load := ragged_embeddings\<rparr>) ''>0|A24C|1'' = Inr [1, 0, 0] \<and>
    mean_representation (example_lib\<lparr>torch_load := ragged_embeddings\<rparr>) ''>1|A24D|2'' = Inr [0, 1] \<and>
      (\<exists>e k. cell_13 (example_lib\<lparr>torch_load := ragged_embeddings\<rparr>) fresh_kernel = Inl (e, k)))"
proof -
  have sh: "snd (shape [[1, 0], [0, 1], [1, 1], [2, 1], [1, 2::int]]) = 2"
    by (simp add: shape_def)
  from loaded_features_share_one_dimension [OF example_read_fasta,
      of fresh_kernel example_loaded]
  have a: "\<exists>X. Xs example_loaded = Some X \<and> (\<forall>row \<in> set X. length row = 2)"
    using example_cell_13 sh by (simp add: example_loaded_def)
  have r: "read_fasta (example_lib\<lparr>torch_load := ragged_embeddings\<rparr>) FASTA_PATH = Inr example_records"
    by (simp add: example_lib_def)
  have m1: "mean_representation (example_lib\<lparr>torch_load := ragged_embeddings\<rparr>) ''>0|A24C|1'' = Inr [1, 0, 0]"
    by (simp add: mean_representation_def ragged_embeddings_def emb_file_def EMB_PATH_def
        EMB_LAYER_def emb_dict_def)
  have m2: "mean_representation (example_lib\<lparr>torch_load := ragged_embeddings\<rparr>) ''>1|A24D|2'' = Inr [0, 1]"
    by (simp add: mean_representation_def ragged_embeddings_def example_embeddings_def
        emb_file_def EMB_PATH_def EMB_LAYER_def emb_dict_def)
  have "(''>0|A24C|1'', ''MC'') \<in> set example_records \<and> (''>1|A24D|2'', ''MD'') \<in> set example_records"
    by (simp add: example_records_def)
  with loaded_features_share_one_dimension [OF r,
      of fresh_kernel _ "''>0|A24C|1''" "''MC''" "''>1|A24D|2''" "''MD''" "[1, 0, 0]" "[0, 1]"] m1 m2
  have b: "\<exists>e k. cell_13 (example_lib\<lparr>torch_load := ragged_embeddings\<rparr>) fresh_kernel = Inl (e, k)"
    by simp
  from a b m1 m2 example_cell_13 show ?thesis by blast
qed

lemma three_wide_cell_13:
  "cell_13 (example_lib\<lparr>torch_load := \<lambda>fn. Some (emb_dict [1, 0, 0])\<rparr>) fresh_kernel =
   Inr (fresh_kernel\<lparr>ys := Some [1, 2, 3, 4, 5],
          Xs := Some [[1, 0, 0], [1, 0, 0], [1, 0, 0], [1, 0, 0], [1, 0, 0]],
          stdout := [PrintNat 5, PrintShape 5 3]\<rparr>)"
  by (simp add: example_load_defs)

text \<open>
  C6 as first stated, the rows having "the configured embedding dimensionality", fails:
  no number is the length of the rows of every dataset the loading cell completes on. It
  completes on five two-dimensional embeddings and on five three-dimensional ones.
\<close>

theorem no_dimensionality_is_configured:
  "\<not> (\<exists>d. \<forall>(L :: (int, candidate) lib) k k' X.
          cell_13 L k = Inr k' \<longrightarrow> Xs k' = Some X \<longrightarrow> (\<forall>row \<in> set X. length row = d))"
proof
  assume "\<exists>d. \<forall>(L :: (int, candidate) lib) k k' X.
          cell_13 L k = Inr k' \<longrightarrow> Xs k' = Some X \<longrightarrow> (\<forall>row \<in> set X. length row = d)"
  then obtain d where d: "\<And>(L :: (int, candidate) lib) k k' X.
          cell_13 L k = Inr k' \<Longrightarrow> Xs k' = Some X \<Longrightarrow> \<forall>row \<in> set X. length row = d"
    by blast
  from d [OF example_cell_13, of "[[1, 0], [0, 1], [1, 1], [2, 1], [1, 2]]"]
  have "d = 2" by (simp add: example_loaded_def)
  moreover from d [OF three_wide_cell_13,
      of "[[1, 0, 0], [1, 0, 0], [1, 0, 0], [1, 0, 0], [1, 0, 0]]"]
  have "d = 3" by simp
  ultimately show False by simp
qed

subsection \<open>Splitting (cell 15)\<close>

lemma seeded_split:
  "train_test_split L entropy1 X y fraction (Some seed) =
   train_test_split L entropy2 X y fraction (Some seed)"
  by (simp add: train_test_split_def Let_def)

text \<open>
  C10. The split is deterministic: the split cell calls \<open>train_test_split\<close> with the
  fixed seed 42 and the fixed fraction 0.8, so on the same loaded dataset two runs, which
  differ in the entropy the operating system would supply, bind the same four arrays
  with the same examples in the same order (or raise the same exception).
\<close>

theorem split_is_independent_of_the_run:
  "cell_15 L entropy1 k = cell_15 L entropy2 k"
  unfolding cell_15_def seeded_split [of L entropy1 _ _ _ _ entropy2] ..

lemma unseeded_split_depends_on_the_run:
  "train_test_split example_lib 0 [[1, 0], [0, 1], [1, 1], [2, 1], [1, 2]] [1, 2, 3, 4, 5] train_size None
   \<noteq> train_test_split example_lib 1 [[1, 0], [0, 1], [1, 1], [2, 1], [1, 2]] [1, 2, 3, 4, 5] train_size None"
  by (simp add: train_test_split_def train_size_def example_lib_def gather_def upt_conv_Cons)

lemma example_cell_15: "cell_15 example_lib entropy example_loaded = Inr example_split"
  by (simp add: cell_15_def train_test_split_def train_size_def example_lib_def gather_def
      example_loaded_def example_split_def var_def upt_conv_Cons)

theorem split_is_independent_of_the_run_witness:
  "cell_15 example_lib 0 example_loaded = Inr example_split \<and>
   cell_15 example_lib 1 example_loaded = Inr example_split"
  using split_is_independent_of_the_run [of example_lib 0 example_loaded 1] example_cell_15 [of 1]
  by simp

lemma load_loop_replicate:
  assumes "py_float L (last (split_on CHR ''|'' header)) = Some y"
    and "mean_representation L header = Inr t"
  shows "load_loop L (replicate n (header, seq)) ya xa =
         Inr (ya @ replicate n y, xa @ replicate n t)"
proof (induction n arbitrary: ya xa)
  case 0
  show ?case by simp
next
  case (Suc n)
  show ?case using assms Suc [of "ya @ [y]" "xa @ [t]"]
    by (simp add: Let_def replicate_app_Cons_same)
qed

lemma shape_replicate: "0 < n \<Longrightarrow> shape (replicate n r) = (n, length r)"
  by (cases n) (simp_all add: shape_def)

lemma torch_stack_replicate: "0 < n \<Longrightarrow> torch_stack (replicate n t) = Inr (replicate n t)"
  by (cases n) (simp_all add: torch_stack_def list_all_iff)

lemma gather_replicate:
  "\<forall>i \<in> set idx. i < n \<Longrightarrow> gather (replicate n x) idx = Inr (replicate (length idx) x)"
  by (simp add: gather_def list_all_iff map_replicate_const [symmetric] cong: map_cong)





subsection \<open>Projection (cell 18)\<close>

lemma shape_rows: "X \<noteq> [] \<Longrightarrow> \<forall>row \<in> set X. length row = d \<Longrightarrow> shape X = (length X, d)"
  by (cases X) (simp_all add: shape_def)

lemma PCA_fit_transform_Inr:
  assumes "X \<noteq> []" and "\<forall>row \<in> set X. length row = d"
    and "\<forall>row \<in> set X. \<forall>v \<in> set row. isfinite L v"
    and "n \<le> length X" and "n \<le> d"
  shows "\<exists>P. PCA_fit_transform L copy n X =
               Inr (P, if copy then X else map (centered L X) X) \<and>
           shape P = (length X, n) \<and> (\<forall>row \<in> set P. length row = n)"
proof -
  let ?P = "map (\<lambda>row. map (\<lambda>j. dot L (centered L X row) (principal_axis L X j)) [0..<n]) X"
  have sh: "shape X = (length X, d)" using assms(1,2) by (rule shape_rows)
  have rows: "\<forall>row \<in> set ?P. length row = n" by auto
  moreover have "?P \<noteq> []" using assms(1) by simp
  ultimately have "shape ?P = (length ?P, n)" by (rule shape_rows [rotated])
  moreover have "PCA_fit_transform L copy n X = Inr (?P, if copy then X else map (centered L X) X)"
    using assms sh by (simp add: PCA_fit_transform_def list_all_iff)
  ultimately show ?thesis using rows by simp
qed

lemma PCA_fit_transform_few_rows:
  "length X < n \<Longrightarrow> PCA_fit_transform L copy n X = Inl ValueError"
  by (auto simp: PCA_fit_transform_def shape_def min_def)

lemma PCA_fit_transform_not_finite:
  "row \<in> set X \<Longrightarrow> v \<in> set row \<Longrightarrow> \<not> isfinite L v \<Longrightarrow>
   PCA_fit_transform L copy n X = Inl ValueError"
  by (auto simp: PCA_fit_transform_def list_all_iff)


lemma in_place_projection_overwrites:
  "PCA_fit_transform (example_lib\<lparr>centered := \<lambda>X row. map (\<lambda>v. v - 1) row\<rparr>) False 1 [[1, 2]]
   = Inr ([[0]], [[0, 1]])"
  by (simp add: PCA_fit_transform_def shape_def example_lib_def)

text \<open>
  C5 (amended). On a training matrix whose rows have 1280 features: with at least sixty
  rows and no NaN or infinite entry, the projection cell completes and binds
  \<open>Xs_train_pca\<close> to a matrix with as many rows and exactly sixty columns, fewer than
  the 1280 it started from; with fewer than sixty rows, or with a NaN or infinite entry,
  it raises \<open>ValueError\<close>.
\<close>

theorem projection_reduces_dimensionality:
  assumes "Xs_train k = Some X" and "\<forall>row \<in> set X. length row = 1280"
  shows "(60 \<le> length X \<and> (\<forall>row \<in> set X. \<forall>v \<in> set row. isfinite L v) \<longrightarrow>
            (\<exists>k' P. cell_18 L k = Inr k' \<and> Xs_train_pca k' = Some P \<and>
               shape P = (length X, 60) \<and> (\<forall>row \<in> set P. length row = 60) \<and>
               snd (shape P) < snd (shape X))) \<and>
         (length X < 60 \<or> (\<exists>row \<in> set X. \<exists>v \<in> set row. \<not> isfinite L v) \<longrightarrow>
            (\<exists>k'. cell_18 L k = Inl (ValueError, k')))"
proof (intro conjI impI)
  assume a: "60 \<le> length X \<and> (\<forall>row \<in> set X. \<forall>v \<in> set row. isfinite L v)"
  then have ne: "X \<noteq> []" by auto
  from PCA_fit_transform_Inr [OF ne assms(2), of L 60 True] a obtain P where
    P: "PCA_fit_transform L True 60 X = Inr (P, X)" "shape P = (length X, 60)"
       "\<forall>row \<in> set P. length row = 60"
    by auto
  from ne assms(2) have "shape X = (length X, 1280)" by (rule shape_rows)
  moreover from P assms(1) have
    "cell_18 L k = Inr (k\<lparr>num_pca_components := Some 60, Xs_train := Some X,
                           Xs_train_pca := Some P\<rparr>)"
    by (simp add: cell_18_def var_def Let_def)
  ultimately show "\<exists>k' P. cell_18 L k = Inr k' \<and> Xs_train_pca k' = Some P \<and>
               shape P = (length X, 60) \<and> (\<forall>row \<in> set P. length row = 60) \<and>
               snd (shape P) < snd (shape X)"
    using P by auto
next
  assume "length X < 60 \<or> (\<exists>row \<in> set X. \<exists>v \<in> set row. \<not> isfinite L v)"
  then have "PCA_fit_transform L True 60 X = Inl ValueError"
    by (auto simp: PCA_fit_transform_few_rows PCA_fit_transform_not_finite)
  with assms(1) show "\<exists>k'. cell_18 L k = Inl (ValueError, k')"
    by (simp add: cell_18_def var_def Let_def)
qed

lemma short_cell_13_15:
  "run_cells [cell_13 short_lib, cell_15 short_lib entropy] fresh_kernel = (short_split, None)"
proof -
  let ?loaded = "fresh_kernel\<lparr>ys := Some (replicate 2 1),
                   Xs := Some (replicate 2 (replicate 1280 0)),
                   stdout := [PrintNat 2, PrintShape 2 1280]\<rparr> :: (int, candidate) kernel"
  have f: "py_float short_lib (last (split_on CHR ''|'' ''>0|A24C|1'')) = Some 1"
    by (simp add: short_lib_def wide_lib_def example_lib_def example_float_def)
  have m: "mean_representation short_lib ''>0|A24C|1'' = Inr (replicate 1280 0)"
    by (simp add: short_lib_def wide_lib_def mean_representation_def emb_file_def EMB_PATH_def
        EMB_LAYER_def emb_dict_def)
  have l: "load_loop short_lib (replicate 2 (''>0|A24C|1'', ''MC'')) [] [] =
        Inr (replicate 2 1, replicate 2 (replicate 1280 0))"
    using load_loop_replicate [OF f m, of 2 "''MC''" "[]" "[]"] by simp
  have r: "read_fasta short_lib FASTA_PATH = Inr (replicate 2 (''>0|A24C|1'', ''MC''))"
    by (simp add: short_lib_def)
  have 13: "cell_13 short_lib fresh_kernel = Inr ?loaded"
    using r l by (simp add: cell_13_def torch_stack_replicate shape_replicate fresh_kernel_def)
  have "train_test_split short_lib entropy (replicate 2 (replicate 1280 0)) (replicate 2 1)
          train_size (Some 42) =
        Inr (replicate 1 (replicate 1280 0), replicate 1 (replicate 1280 0),
             replicate 1 1, replicate 1 1)"
    by (simp add: train_test_split_def train_size_def short_lib_def wide_lib_def example_lib_def
        gather_replicate Let_def del: upt_rec_numeral replicate.simps)
  then have "cell_15 short_lib entropy ?loaded = Inr short_split"
    by (simp add: cell_15_def var_def short_split_def del: replicate.simps)
  with 13 show ?thesis by simp
qed

lemma short_cell_18:
  "cell_18 short_lib short_split =
   Inl (ValueError, short_split\<lparr>num_pca_components := Some 60\<rparr>)"
  by (simp add: cell_18_def var_def short_split_def PCA_fit_transform_def shape_def Let_def
      short_lib_def wide_lib_def example_lib_def list_all_iff)

text \<open>
  C5 as first stated, for every training matrix with 1280 columns, fails on the run of
  the notebook on two records: the split leaves one training example, and the
  projection cell raises \<open>ValueError\<close>.
\<close>

theorem projection_needs_sixty_rows:
  "run_cells [cell_13 short_lib, cell_15 short_lib 0] fresh_kernel = (short_split, None) \<and>
   Xs_train short_split = Some [replicate 1280 0] \<and>
   cell_18 short_lib short_split = Inl (ValueError, short_split\<lparr>num_pca_components := Some 60\<rparr>)"
  using short_cell_13_15 [of 0] short_cell_18 by (simp add: short_split_def)

theorem projection_reduces_dimensionality_witness:
  "Xs_train wide_split = Some (replicate 60 (replicate 1280 0)) \<and>
   (\<exists>k' P. cell_18 wide_lib wide_split = Inr k' \<and> Xs_train_pca k' = Some P \<and>
      shape P = (60, 60)) \<and>
   Xs_train short_split = Some [replicate 1280 0] \<and>
   (\<exists>k'. cell_18 short_lib short_split = Inl (ValueError, k'))"
proof -
  have 1: "Xs_train wide_split = Some (replicate 60 (replicate 1280 0))"
    by (simp add: wide_split_def)
  have 2: "\<forall>row \<in> set (replicate 60 (replicate 1280 (0::int))). length row = 1280" by simp
  have 3: "60 \<le> length (replicate 60 (replicate 1280 (0::int))) \<and>
     (\<forall>row \<in> set (replicate 60 (replicate 1280 (0::int))). \<forall>v \<in> set row. isfinite wide_lib v)"
    by (simp add: wide_lib_def example_lib_def)
  from projection_reduces_dimensionality [OF 1 2, of wide_lib] 3
  have a: "\<exists>k' P. cell_18 wide_lib wide_split = Inr k' \<and> Xs_train_pca k' = Some P \<and>
      shape P = (60, 60)"
    by auto
  have 4: "Xs_train short_split = Some [replicate 1280 0]" by (simp add: short_split_def)
  have 5: "\<forall>row \<in> set [replicate 1280 (0::int)]. length row = 1280" by simp
  from projection_reduces_dimensionality [OF 4 5, of short_lib]
  have b: "\<exists>k'. cell_18 short_lib short_split = Inl (ValueError, k')" by simp
  from 1 a 4 b show ?thesis by blast
qed

subsection \<open>The notebook as shipped\<close>

lemma run_cells_invariant:
  assumes "\<And>c k. c \<in> set cells \<Longrightarrow> P k \<Longrightarrow> P (after (c k))" and "P k"
  shows "P (fst (run_cells cells k))"
  using assms
proof (induction cells arbitrary: k)
  case Nil
  then show ?case by simp
next
  case (Cons c cells)
  from Cons.prems have step: "P (after (c k))" by simp
  show ?case
  proof (cases "c k")
    case (Inl a)
    with step show ?thesis by (cases a) (simp add: after_def)
  next
    case (Inr k')
    with step have "P k'" by (simp add: after_def)
    with Cons.IH [of k'] Cons.prems(1) Inr show ?thesis by simp
  qed
qed

lemma run_cells_raises:
  assumes "c \<in> set cells" and "\<And>k. \<exists>e k'. c k = Inl (e, k')"
  shows "snd (run_cells cells k) \<noteq> None"
  using assms(1)
proof (induction cells arbitrary: k)
  case Nil
  then show ?case by simp
next
  case (Cons d cells)
  show ?case
  proof (cases "d k")
    case (Inl a)
    then show ?thesis by (cases a) simp
  next
    case (Inr k')
    with assms(2) [of k] have "d \<noteq> c" by auto
    with Cons.prems have "c \<in> set cells" by simp
    from Cons.IH [OF this] Inr show ?thesis by simp
  qed
qed

lemma cell_26_never_compiles: "compiles cell_26_source = False"
  by (simp add: compiles_def cell_26_source_def cell_text_def closes_def)

lemma cell_26_Inl: "cell_26 L k = Inl (SyntaxError, k)"
  by (simp add: cell_26_def run_cell_def cell_26_never_compiles)

lemma cell_35_unbound: "grid_list k = None \<Longrightarrow> cell_35 L k = Inl (NameError, k)"
  by (simp add: cell_35_def var_def)

lemma rank_correlations_append [simp]:
  "rank_correlations (a @ b) = rank_correlations a @ rank_correlations b"
  by (simp add: rank_correlations_def)

lemma cell_13_before_search: "before_search k \<Longrightarrow> before_search (after (cell_13 L k))"
  by (auto simp: cell_13_def before_search_def after_def rank_correlations_def
      split: sum.splits prod.splits)

lemma cell_15_before_search: "before_search k \<Longrightarrow> before_search (after (cell_15 L entropy k))"
  by (auto simp: cell_15_def before_search_def after_def split: sum.splits prod.splits)

lemma cell_18_before_search: "before_search k \<Longrightarrow> before_search (after (cell_18 L k))"
  by (auto simp: cell_18_def before_search_def after_def Let_def split: sum.splits prod.splits)

lemma cell_23_before_search: "before_search k \<Longrightarrow> before_search (after (cell_23 k))"
  by (simp add: cell_23_def before_search_def after_def)

lemma cell_24_before_search: "before_search k \<Longrightarrow> before_search (after (cell_24 k))"
  by (auto simp: cell_24_def before_search_def after_def Let_def split: sum.splits)

lemma cell_26_before_search: "before_search k \<Longrightarrow> before_search (after (cell_26 L k))"
  by (simp add: cell_26_Inl after_def)

lemma cell_35_before_search: "before_search k \<Longrightarrow> before_search (after (cell_35 L k))"
  by (simp add: cell_35_unbound before_search_def after_def)

lemma run_notebook_stops:
  "before_search (fst (run_notebook L entropy)) \<and> snd (run_notebook L entropy) \<noteq> None"
proof
  have "before_search (fresh_kernel :: ('a, 'b) kernel)"
    by (simp add: before_search_def fresh_kernel_def rank_correlations_def)
  moreover have "\<And>c k. c \<in> set (notebook L entropy) \<Longrightarrow> before_search k
      \<Longrightarrow> before_search (after (c k))"
    by (auto simp: notebook_def cell_13_before_search cell_15_before_search
        cell_18_before_search cell_23_before_search cell_24_before_search
        cell_26_before_search cell_35_before_search)
  ultimately show "before_search (fst (run_notebook L entropy))"
    unfolding run_notebook_def by (rule run_cells_invariant [rotated])
next
  have "cell_26 L \<in> set (notebook L entropy)" by (simp add: notebook_def)
  then show "snd (run_notebook L entropy) \<noteq> None"
    unfolding run_notebook_def by (rule run_cells_raises) (simp add: cell_26_Inl)
qed

text \<open>
  C1. Every combination of the three grids is to be fitted and scored. The text of the
  search cell has a bracket that is never closed (its second line opens five and closes
  four), so the cell raises \<open>SyntaxError\<close> before its first statement and a run of the
  notebook leaves \<open>result_list\<close> unbound: no candidate is fitted. The statements of
  the cell, were they compiled, do score all 48, 12 and 16 candidates
  (\<open>search_scores_every_candidate\<close> below).
\<close>

theorem grid_search_cell_is_never_run:
  "\<not> compiles cell_26_source \<and> cell_26 L k = Inl (SyntaxError, k) \<and>
   result_list (fst (run_notebook L entropy)) = None"
  using run_notebook_stops [of L entropy]
  by (auto simp: cell_26_never_compiles cell_26_Inl before_search_def)

text \<open>
  C2. The best-scoring candidate of each family is to be retained. Every run of the
  notebook ends with an exception and with \<open>grid_list\<close> unbound: none is retained.
  The search as modelled does keep the best of each grid, compared within that grid
  only (\<open>grid_search_keeps_the_best_of_its_grid\<close> below).
\<close>

theorem no_candidate_is_retained:
  "grid_list (fst (run_notebook L entropy)) = None \<and> snd (run_notebook L entropy) \<noteq> None"
  using run_notebook_stops [of L entropy] by (auto simp: before_search_def)

text \<open>
  C3. One rank correlation per family is to be printed. No run of the notebook prints
  any, since the evaluation cell is never reached. The evaluation loop itself prints
  exactly one per fitted grid, each on the same held-out \<open>Xs_test\<close> and \<open>ys_test\<close>
  (\<open>evaluation_prints_one_correlation_per_grid\<close> below).
\<close>

theorem no_rank_correlation_is_printed:
  "rank_correlations (stdout (fst (run_notebook L entropy))) = []"
  using run_notebook_stops [of L entropy] by (auto simp: before_search_def)

subsection \<open>The later stages and the data\<close>














subsection \<open>What each stage consumes\<close>








lemma search_loop_commutes:
  fixes f :: "('v::linorder, 'm) kernel \<Rightarrow> ('v, 'm) kernel"
  assumes reads: "\<And>k. Xs_train (f k) = Xs_train k" "\<And>k. ys_train (f k) = ys_train k"
      "\<And>k. result_list (f k) = result_list k" "\<And>k. grid_list (f k) = grid_list k"
      "\<And>k. stdout (f k) = stdout k"
    and writes: "\<And>k out. (f k)\<lparr>stdout := out\<rparr> = f (k\<lparr>stdout := out\<rparr>)"
      "\<And>k r. (f k)\<lparr>result_list := r\<rparr> = f (k\<lparr>result_list := r\<rparr>)"
      "\<And>k g. (f k)\<lparr>grid_list := g\<rparr> = f (k\<lparr>grid_list := g\<rparr>)"
  shows "search_loop L p jobs (f k) = rebinding f (search_loop L p jobs k)"
proof (induction jobs arbitrary: k)
  case Nil
  show ?case by (simp add: rebinding_def)
next
  case (Cons job jobs)
  obtain cls g where job: "job = (cls, g)" by (cases job)
  show ?case
    by (auto simp: job Let_def var_def reads writes Cons.IH rebinding_def
        split: option.splits sum.splits)
qed

lemma search_statements_ignore_the_projection:
  "run_cell src (cell_26_body L) (k\<lparr>Xs_train_pca := Q\<rparr>) =
   rebinding (\<lambda>k. k\<lparr>Xs_train_pca := Q\<rparr>) (run_cell src (cell_26_body L) k)"
proof (cases "compiles src")
  case False
  then show ?thesis by (simp add: run_cell_def rebinding_def)
next
  case True
  let ?f = "\<lambda>k :: ('a, 'b) kernel. k\<lparr>Xs_train_pca := Q\<rparr>"
  have loop: "search_loop L p jobs (?f k) = rebinding ?f (search_loop L p jobs k)" for p jobs k
    by (rule search_loop_commutes) simp_all
  have "cell_26_body L (?f k) = rebinding ?f (cell_26_body L k)"
  proof (cases "num_pca_components k")
    case None
    then show ?thesis by (simp add: cell_26_body_def var_def rebinding_def)
  next
    case (Some n)
    let ?p = "[(''pca'', PCA n), (''model'', Passthrough)]"
    let ?k1 = "k\<lparr>pipe := Some ?p, result_list := Some [], grid_list := Some []\<rparr>"
    have k1: "(?f k)\<lparr>pipe := Some ?p, result_list := Some [], grid_list := Some []\<rparr> = ?f ?k1"
      by simp
    show ?thesis
    proof (cases "cls_list k")
      case None
      with Some show ?thesis
        unfolding cell_26_body_def by (simp add: var_def Let_def rebinding_def)
    next
      case c: (Some classes)
      show ?thesis
      proof (cases "param_grid_list k")
        case None
        with Some c show ?thesis
          unfolding cell_26_body_def by (simp add: var_def Let_def rebinding_def)
      next
        case g: (Some grids)
        have "cell_26_body L (?f k) = search_loop L ?p (zip classes grids) (?f ?k1)"
          using Some c g unfolding cell_26_body_def by (simp add: var_def Let_def k1)
        moreover have "cell_26_body L k = search_loop L ?p (zip classes grids) ?k1"
          using Some c g unfolding cell_26_body_def by (simp add: var_def Let_def)
        ultimately show ?thesis using loop by simp
      qed
    qed
  qed
  with True show ?thesis by (simp add: run_cell_def)
qed

subsection \<open>What the search and evaluation loops compute\<close>

lemma knn_candidates: "length (ParameterGrid knn_grid_value) = 48"
  by (simp add: ParameterGrid_def knn_grid_value_def sorted_items_def)

lemma svm_candidates: "length (ParameterGrid svm_grid_value) = 12"
  by (simp add: ParameterGrid_def svm_grid_value_def sorted_items_def)

lemma rfr_candidates: "length (ParameterGrid rfr_grid_value) = 16"
  by (simp add: ParameterGrid_def rfr_grid_value_def sorted_items_def)

lemma knn_keys_sorted:
  "map fst (hd (ParameterGrid knn_grid_value)) =
   [''model'', ''model__algorithm'', ''model__leaf_size'', ''model__n_neighbors'',
    ''model__p'', ''model__weights'']"
  by (simp add: ParameterGrid_def knn_grid_value_def sorted_items_def)

lemma argmax_from_best:
  assumes "length pre = i" and "bi < i" and "pre ! bi = bs" and "\<forall>s \<in> set pre. s \<le> bs"
  shows "argmax_from bi bs i ss < length (pre @ ss) \<and>
         (\<forall>s \<in> set (pre @ ss). s \<le> (pre @ ss) ! argmax_from bi bs i ss)"
  using assms
proof (induction ss arbitrary: pre i bi bs)
  case Nil
  then show ?case by simp
next
  case (Cons s ss)
  show ?case
  proof (cases "bs < s")
    case True
    have "argmax_from i s (Suc i) ss < length ((pre @ [s]) @ ss) \<and>
          (\<forall>t \<in> set ((pre @ [s]) @ ss). t \<le> ((pre @ [s]) @ ss) ! argmax_from i s (Suc i) ss)"
    proof (rule Cons.IH)
      show "length (pre @ [s]) = Suc i" using Cons.prems by simp
      show "i < Suc i" by simp
      show "(pre @ [s]) ! i = s" using Cons.prems(1) by (simp add: nth_append)
      show "\<forall>t \<in> set (pre @ [s]). t \<le> s" using Cons.prems True by fastforce
    qed
    with True show ?thesis by simp
  next
    case False
    have "argmax_from bi bs (Suc i) ss < length ((pre @ [s]) @ ss) \<and>
          (\<forall>t \<in> set ((pre @ [s]) @ ss). t \<le> ((pre @ [s]) @ ss) ! argmax_from bi bs (Suc i) ss)"
    proof (rule Cons.IH)
      show "length (pre @ [s]) = Suc i" using Cons.prems by simp
      show "bi < Suc i" using Cons.prems by simp
      show "(pre @ [s]) ! bi = bs" using Cons.prems by (simp add: nth_append)
      show "\<forall>t \<in> set (pre @ [s]). t \<le> bs" using Cons.prems False by auto
    qed
    with False show ?thesis by simp
  qed
qed

lemma argmax_first_best:
  assumes "scores \<noteq> []"
  shows "argmax_first scores < length scores \<and>
         (\<forall>s \<in> set scores. s \<le> scores ! argmax_first scores)"
proof -
  from assms obtain s ss where sc: "scores = s # ss" by (cases scores) auto
  from argmax_from_best [of "[s]" 1 0 s ss] sc show ?thesis
    by (simp add: argmax_first_def)
qed

lemma GridSearchCV_fit_Inr:
  "ParameterGrid g \<noteq> [] \<Longrightarrow>
   \<exists>grid. GridSearchCV_fit L p g X y = Inr grid \<and>
     cv_results grid = map (\<lambda>c. (c, cv_score L p c X y)) (ParameterGrid g) \<and>
     best_index grid = argmax_first (map (\<lambda>c. cv_score L p c X y) (ParameterGrid g)) \<and>
     best_estimator grid = refit L p (ParameterGrid g ! best_index grid) X y"
  by (simp add: GridSearchCV_fit_def Let_def zip_map2 zip_same_conv_map)

lemma grid_search_keeps_the_best_of_its_grid:
  assumes "GridSearchCV_fit L p g X y = Inr grid"
  shows "cv_results grid = map (\<lambda>c. (c, cv_score L p c X y)) (ParameterGrid g) \<and>
         best_index grid < length (ParameterGrid g) \<and>
         best_estimator grid = refit L p (ParameterGrid g ! best_index grid) X y \<and>
         (\<forall>c \<in> set (ParameterGrid g).
            cv_score L p c X y \<le> cv_score L p (ParameterGrid g ! best_index grid) X y)"
proof -
  from assms have ne: "ParameterGrid g \<noteq> []"
    by (auto simp: GridSearchCV_fit_def Let_def split: if_splits)
  let ?scores = "map (\<lambda>c. cv_score L p c X y) (ParameterGrid g)"
  from GridSearchCV_fit_Inr [OF ne, of L p X y] assms have
    r: "cv_results grid = map (\<lambda>c. (c, cv_score L p c X y)) (ParameterGrid g)" and
    b: "best_index grid = argmax_first ?scores" and
    e: "best_estimator grid = refit L p (ParameterGrid g ! best_index grid) X y"
    by auto
  from ne have "?scores \<noteq> []" by simp
  from argmax_first_best [OF this] b have
    lt: "best_index grid < length (ParameterGrid g)" and
    mx: "\<forall>s \<in> set ?scores. s \<le> ?scores ! best_index grid"
    by auto
  from mx lt have "\<forall>c \<in> set (ParameterGrid g).
      cv_score L p c X y \<le> cv_score L p (ParameterGrid g ! best_index grid) X y"
    by simp
  with r lt e show ?thesis by simp
qed

lemma search_loop_Inr:
  assumes "search_loop L p jobs k = Inr k'"
    and "Xs_train k = Some X" and "ys_train k = Some y"
    and "result_list k = Some results" and "grid_list k = Some grids"
  shows "\<exists>new. map Inr new = map (\<lambda>job. GridSearchCV_fit L p (snd job) X y) jobs \<and>
           result_list k' = Some (results @ map cv_results new) \<and>
           grid_list k' = Some (grids @ new)"
  using assms
proof (induction jobs arbitrary: k results grids)
  case Nil
  then show ?case by simp
next
  case (Cons job jobs)
  obtain cls g where job: "job = (cls, g)" by (cases job)
  let ?k1 = "k\<lparr>stdout := stdout k @ [PrintClass cls]\<rparr>"
  from Cons.prems job obtain grid where
    fit: "GridSearchCV_fit L p g X y = Inr grid" and
    rest: "search_loop L p jobs
             (?k1\<lparr>result_list := Some (results @ [cv_results grid]),
                  grid_list := Some (grids @ [grid])\<rparr>) = Inr k'"
    by (auto simp: Let_def var_def split: sum.splits)
  from Cons.IH [OF rest, of "results @ [cv_results grid]" "grids @ [grid]"] Cons.prems
  obtain new where
    "map Inr new = map (\<lambda>job. GridSearchCV_fit L p (snd job) X y) jobs"
    "result_list k' = Some ((results @ [cv_results grid]) @ map cv_results new)"
    "grid_list k' = Some ((grids @ [grid]) @ new)"
    by auto
  then have "map Inr (grid # new) = map (\<lambda>job. GridSearchCV_fit L p (snd job) X y) (job # jobs) \<and>
     result_list k' = Some (results @ map cv_results (grid # new)) \<and>
     grid_list k' = Some (grids @ (grid # new))"
    using fit job by simp
  then show ?case by blast
qed

lemma search_scores_every_candidate:
  fixes L :: "('v::linorder, 'm) lib"
  assumes "cell_26_body L k = Inr k'"
    and "cls_list k = Some [KNeighborsRegressor, SVR, RandomForestRegressor]"
    and "param_grid_list k = Some [knn_grid_value, svm_grid_value, rfr_grid_value]"
    and "Xs_train k = Some X" and "ys_train k = Some y"
  shows "\<exists>grids. grid_list k' = Some grids \<and> result_list k' = Some (map cv_results grids) \<and>
           map (\<lambda>grid. map fst (cv_results grid)) grids =
             map ParameterGrid [knn_grid_value, svm_grid_value, rfr_grid_value] \<and>
           map (\<lambda>grid. length (cv_results grid)) grids = [48, 12, 16]"
proof -
  from assms(1,2,3) obtain n where
    loop: "search_loop L [(''pca'', PCA n), (''model'', Passthrough)]
             (zip [KNeighborsRegressor, SVR, RandomForestRegressor]
                  [knn_grid_value, svm_grid_value, rfr_grid_value])
             (k\<lparr>pipe := Some [(''pca'', PCA n), (''model'', Passthrough)],
                result_list := Some [], grid_list := Some []\<rparr>) = Inr k'"
    by (auto simp: cell_26_body_def var_def Let_def split: option.splits)
  let ?p = "[(''pca'', PCA n), (''model'', Passthrough)]"
  have "\<exists>grids :: ('v, 'm) grid_search list.
      map Inr grids = [GridSearchCV_fit L ?p knn_grid_value X y,
                         GridSearchCV_fit L ?p svm_grid_value X y,
                         GridSearchCV_fit L ?p rfr_grid_value X y] \<and>
      result_list k' = Some (map cv_results grids) \<and> grid_list k' = Some grids"
    using search_loop_Inr [OF loop, of X y "[]" "[]"] assms(4,5) by simp
  then show ?thesis
  proof (elim exE conjE)
  fix grids :: "('v, 'm) grid_search list"
  assume g: "map Inr grids = [GridSearchCV_fit L ?p knn_grid_value X y,
                         GridSearchCV_fit L ?p svm_grid_value X y,
                         GridSearchCV_fit L ?p rfr_grid_value X y]"
    and k': "result_list k' = Some (map cv_results grids)" "grid_list k' = Some grids"
  from g obtain a b c where abc: "grids = [a, b, c]"
    "GridSearchCV_fit L ?p knn_grid_value X y = Inr a"
    "GridSearchCV_fit L ?p svm_grid_value X y = Inr b"
    "GridSearchCV_fit L ?p rfr_grid_value X y = Inr c"
    by (auto simp: map_eq_Cons_conv)
  from abc(2-4) [THEN grid_search_keeps_the_best_of_its_grid] have
    "cv_results a = map (\<lambda>c. (c, cv_score L ?p c X y)) (ParameterGrid knn_grid_value)"
    "cv_results b = map (\<lambda>c. (c, cv_score L ?p c X y)) (ParameterGrid svm_grid_value)"
    "cv_results c = map (\<lambda>c. (c, cv_score L ?p c X y)) (ParameterGrid rfr_grid_value)"
    by simp_all
  then have "map fst (cv_results a) = ParameterGrid knn_grid_value"
    "map fst (cv_results b) = ParameterGrid svm_grid_value"
    "map fst (cv_results c) = ParameterGrid rfr_grid_value"
    by (simp_all add: comp_def)
  moreover from this have "length (cv_results a) = 48" "length (cv_results b) = 12"
    "length (cv_results c) = 16"
    using knn_candidates svm_candidates rfr_candidates by (metis length_map)+
  ultimately show ?thesis using abc(1) k' by simp
  qed
qed

lemma eval_loop_Inr:
  assumes "Xs_test k = Some X_test" and "ys_test k = Some y_test"
  shows "\<exists>k'. eval_loop L grids k = Inr k' \<and>
           stdout k' = stdout k @
             concat (map (\<lambda>grid. [PrintModel (best_estimator grid), PrintBlank,
                                   PrintSpearman (spearmanr L y_test (grid_predict L grid X_test)),
                                   PrintRule]) grids)"
  using assms
proof (induction grids arbitrary: k)
  case Nil
  then show ?case by simp
next
  case (Cons grid grids)
  let ?k2 = "k\<lparr>stdout := stdout k @ [PrintModel (best_estimator grid), PrintBlank,
                PrintSpearman (spearmanr L y_test (grid_predict L grid X_test)), PrintRule]\<rparr>"
  have "eval_loop L (grid # grids) k = eval_loop L grids ?k2"
    using Cons.prems by (simp add: Let_def var_def)
  moreover from Cons.IH [of ?k2] Cons.prems obtain k' where
    "eval_loop L grids ?k2 = Inr k'"
    "stdout k' = stdout ?k2 @
       concat (map (\<lambda>grid. [PrintModel (best_estimator grid), PrintBlank,
                             PrintSpearman (spearmanr L y_test (grid_predict L grid X_test)),
                             PrintRule]) grids)"
    by auto
  ultimately show ?case by simp
qed

lemma evaluation_prints_one_correlation_per_grid:
  assumes "grid_list k = Some grids" and "Xs_test k = Some X_test" and "ys_test k = Some y_test"
  shows "\<exists>k'. cell_35 L k = Inr k' \<and>
           rank_correlations (stdout k') =
             rank_correlations (stdout k) @
             map (\<lambda>grid. spearmanr L y_test (predict L (best_estimator grid) X_test)) grids"
proof -
  from eval_loop_Inr [OF assms(2,3), of L grids] obtain k' where
    k': "eval_loop L grids k = Inr k'"
        "stdout k' = stdout k @
           concat (map (\<lambda>grid. [PrintModel (best_estimator grid), PrintBlank,
                                 PrintSpearman (spearmanr L y_test (grid_predict L grid X_test)),
                                 PrintRule]) grids)"
    by blast
  have "rank_correlations (concat (map (\<lambda>grid. [PrintModel (best_estimator grid), PrintBlank,
                               PrintSpearman (spearmanr L y_test (grid_predict L grid X_test)),
                               PrintRule]) gs))
        = map (\<lambda>grid. spearmanr L y_test (predict L (best_estimator grid) X_test)) gs" for gs
    by (induction gs) (simp_all add: rank_correlations_def grid_predict_def)
  with k' assms(1) show ?thesis by (simp add: cell_35_def var_def)
qed

end
